theory Spec2Isabelle
  imports Main
begin

section \<open>Shared types of the game model\<close>

text \<open>
  \<^verbatim>\<open>src/constants/game-config.ts\<close>: \<^verbatim>\<open>type PlayerSymbol = 'X' | 'O'\<close>.
  The constructor for \<^verbatim>\<open>'O'\<close> cannot be called \<open>O\<close> (relation composition), so both
  constructors carry the prefix \<open>Player\<close>.
\<close>

datatype PlayerSymbol = PlayerX | PlayerO

text \<open>
  \<^verbatim>\<open>src/models/board.ts\<close>: \<^verbatim>\<open>interface CellPosition { row: number; col: number }\<close>.
  The coordinates are modelled as unbounded integers, so that negative and too large
  coordinates are inputs of the model as they are of the code.
\<close>

record CellPosition =
  row :: int
  col :: int

text \<open>
  \<^verbatim>\<open>MOVE_VALIDATION.REASONS\<close> of \<^verbatim>\<open>src/constants/game-config.ts\<close>. The reasons are
  string literals in the source (the type \<^verbatim>\<open>MoveFailureReason\<close> is a union of
  string literal types) and stay strings here. The table has these four entries and no
  other.
\<close>

definition CELL_OCCUPIED :: string where
  "CELL_OCCUPIED = ''cell-occupied''"

definition MOVE_IN_PROGRESS :: string where
  "MOVE_IN_PROGRESS = ''move-in-progress''"

definition INVALID_POSITION :: string where
  "INVALID_POSITION = ''invalid-position''"

definition BOARD_FULL :: string where
  "BOARD_FULL = ''board-full''"

text \<open>
  \<^verbatim>\<open>src/models/game-state.ts\<close>:
  \<^verbatim>\<open>type MoveResult = { success: true } | { success: false; reason: MoveFailureReason }\<close>.
\<close>

datatype MoveResult = Success | Failure (reason: string)

fun success :: "MoveResult \<Rightarrow> bool" where
  "success Success = True"
| "success (Failure r) = False"

section \<open>Win and draw detector (the listing of feature 003)\<close>

subsection \<open>Board of the win detector\<close>

text \<open>
  The win detector of feature 003 reads the board as a 2D array of cells
  (\<^verbatim>\<open>board.length\<close>, \<^verbatim>\<open>board.map(row => [...row])\<close>) whose cells have a field
  \<^verbatim>\<open>piece\<close> that is a player symbol or \<^verbatim>\<open>null\<close>.
\<close>

record Cell_003 =
  piece :: "PlayerSymbol option"

type_synonym Board_003 = "Cell_003 list list"

text \<open>
  Modelled from the spec: \<^verbatim>\<open>getCell(board, row, col)\<close>, imported by the win detector
  from \<^verbatim>\<open>models/board\<close>, is not defined anywhere in the repository. The contract of
  the win detector calls it the accessor function of the 2D array of cells, and the
  specification says the board is addressable by \<open>(row, col)\<close>. Outside the array there
  is no cell: the result is \<open>None\<close>, and the callers, which read \<^verbatim>\<open>.piece\<close> of the
  result at once, throw there.
\<close>

definition getCell :: "Board_003 \<Rightarrow> int \<Rightarrow> int \<Rightarrow> Cell_003 option" where
  "getCell board r c =
     (if 0 \<le> r \<and> r < int (length board) then
        (if 0 \<le> c \<and> c < int (length (board ! nat r))
         then Some (board ! nat r ! nat c) else None)
      else None)"

text \<open>
  Modelled from the spec: \<^verbatim>\<open>setCellValue(board, row, col, value)\<close>, imported from
  \<^verbatim>\<open>models/board\<close>, is not defined anywhere in the repository either. It stores
  \<open>value\<close> as the piece of the cell at \<open>(row, col)\<close>; the model returns the updated
  board, and \<open>None\<close> where there is no such cell.
\<close>

definition setCellValue ::
  "Board_003 \<Rightarrow> int \<Rightarrow> int \<Rightarrow> PlayerSymbol option \<Rightarrow> Board_003 option" where
  "setCellValue board r c v =
     (case getCell board r c of
        None \<Rightarrow> None
      | Some cell \<Rightarrow>
          Some (board[nat r := (board ! nat r)[nat c := cell\<lparr>piece := v\<rparr>]]))"

subsection \<open>Win pattern table\<close>

text \<open>\<^verbatim>\<open>WIN_PATTERNS\<close>: rows 0-2, columns 3-5, main diagonal 6, anti-diagonal 7.\<close>

definition WIN_PATTERNS :: "CellPosition list list" where
  "WIN_PATTERNS =
     [ [\<lparr>row = 0, col = 0\<rparr>, \<lparr>row = 0, col = 1\<rparr>, \<lparr>row = 0, col = 2\<rparr>],
       [\<lparr>row = 1, col = 0\<rparr>, \<lparr>row = 1, col = 1\<rparr>, \<lparr>row = 1, col = 2\<rparr>],
       [\<lparr>row = 2, col = 0\<rparr>, \<lparr>row = 2, col = 1\<rparr>, \<lparr>row = 2, col = 2\<rparr>],
       [\<lparr>row = 0, col = 0\<rparr>, \<lparr>row = 1, col = 0\<rparr>, \<lparr>row = 2, col = 0\<rparr>],
       [\<lparr>row = 0, col = 1\<rparr>, \<lparr>row = 1, col = 1\<rparr>, \<lparr>row = 2, col = 1\<rparr>],
       [\<lparr>row = 0, col = 2\<rparr>, \<lparr>row = 1, col = 2\<rparr>, \<lparr>row = 2, col = 2\<rparr>],
       [\<lparr>row = 0, col = 0\<rparr>, \<lparr>row = 1, col = 1\<rparr>, \<lparr>row = 2, col = 2\<rparr>],
       [\<lparr>row = 0, col = 2\<rparr>, \<lparr>row = 1, col = 1\<rparr>, \<lparr>row = 2, col = 0\<rparr>] ]"

text \<open>
  The array read \<^verbatim>\<open>WIN_PATTERNS[patternIndex]\<close>: outside the table JavaScript yields
  \<^verbatim>\<open>undefined\<close>, here \<open>None\<close>.
\<close>

definition patternAt :: "int \<Rightarrow> CellPosition list option" where
  "patternAt i =
     (if 0 \<le> i \<and> i < int (length WIN_PATTERNS) then Some (WIN_PATTERNS ! nat i) else None)"

subsection \<open>Win detector\<close>

text \<open>\<^verbatim>\<open>interface WinResult { winner: PlayerSymbol; winningLine: CellPosition[] }\<close>\<close>

record WinResult =
  winner :: PlayerSymbol
  winningLine :: "CellPosition list"

text \<open>
  \<^verbatim>\<open>getRelevantPatternIndices\<close>: the row index, then 3 + the column index, then 6 on
  the main diagonal, then 7 on the anti-diagonal, pushed in this order.
\<close>

definition getRelevantPatternIndices :: "CellPosition \<Rightarrow> int list" where
  "getRelevantPatternIndices lastMove =
     [row lastMove, 3 + col lastMove]
     @ (if row lastMove = col lastMove then [6] else [])
     @ (if row lastMove + col lastMove = 2 then [7] else [])"

text \<open>
  \<^verbatim>\<open>isWinningLine\<close>: \<^verbatim>\<open>pattern.every(pos => getCell(board, pos.row, pos.col).piece === player)\<close>.
  \<^verbatim>\<open>every\<close> stops at the first cell that does not match. The result \<open>None\<close> is the
  TypeError of reading \<^verbatim>\<open>.piece\<close> where \<open>getCell\<close> has no cell.
\<close>

fun isWinningLine :: "Board_003 \<Rightarrow> CellPosition list \<Rightarrow> PlayerSymbol \<Rightarrow> bool option" where
  "isWinningLine board [] player = Some True"
| "isWinningLine board (pos # pattern) player =
     (case getCell board (row pos) (col pos) of
        None \<Rightarrow> None
      | Some cell \<Rightarrow>
          if piece cell = Some player then isWinningLine board pattern player
          else Some False)"

text \<open>
  The \<^verbatim>\<open>for\<close> loop of \<^verbatim>\<open>checkWin\<close> over the relevant indices. The outer option is
  the exception (a pattern index outside the table makes \<^verbatim>\<open>pattern.every\<close> throw),
  the inner one is \<^verbatim>\<open>WinResult | null\<close>.
\<close>

fun checkWinLoop :: "Board_003 \<Rightarrow> PlayerSymbol \<Rightarrow> int list \<Rightarrow> WinResult option option" where
  "checkWinLoop board player [] = Some None"
| "checkWinLoop board player (patternIndex # relevantIndices) =
     (case patternAt patternIndex of
        None \<Rightarrow> None
      | Some pattern \<Rightarrow>
          (case isWinningLine board pattern player of
             None \<Rightarrow> None
           | Some True \<Rightarrow> Some (Some \<lparr>winner = player, winningLine = pattern\<rparr>)
           | Some False \<Rightarrow> checkWinLoop board player relevantIndices))"

definition checkWin :: "Board_003 \<Rightarrow> CellPosition \<Rightarrow> WinResult option option" where
  "checkWin board lastMove =
     (case getCell board (row lastMove) (col lastMove) of
        None \<Rightarrow> None
      | Some cell \<Rightarrow>
          (case piece cell of
             None \<Rightarrow> Some None
           | Some player \<Rightarrow> checkWinLoop board player (getRelevantPatternIndices lastMove)))"

text \<open>
  \<^verbatim>\<open>checkDraw\<close>: two nested loops over \<^verbatim>\<open>row < gridSize\<close> and \<^verbatim>\<open>col < gridSize\<close>
  with \<^verbatim>\<open>gridSize = board.length\<close>, returning \<^verbatim>\<open>false\<close> at the first empty cell.
\<close>

fun checkDrawCols :: "Board_003 \<Rightarrow> int \<Rightarrow> int list \<Rightarrow> bool option" where
  "checkDrawCols board r [] = Some True"
| "checkDrawCols board r (c # cs) =
     (case getCell board r c of
        None \<Rightarrow> None
      | Some cell \<Rightarrow> if piece cell = None then Some False else checkDrawCols board r cs)"

fun checkDrawRows :: "Board_003 \<Rightarrow> int list \<Rightarrow> int list \<Rightarrow> bool option" where
  "checkDrawRows board [] cs = Some True"
| "checkDrawRows board (r # rs) cs =
     (case checkDrawCols board r cs of
        None \<Rightarrow> None
      | Some False \<Rightarrow> Some False
      | Some True \<Rightarrow> checkDrawRows board rs cs)"

definition checkDraw :: "Board_003 \<Rightarrow> bool option" where
  "checkDraw board =
     (let gridSize = length board
      in checkDrawRows board (map int [0..<gridSize]) (map int [0..<gridSize]))"

text \<open>A cell position of the 3x3 grid, and the three kinds of cell.\<close>

definition inGrid :: "CellPosition \<Rightarrow> bool" where
  "inGrid p \<longleftrightarrow> 0 \<le> row p \<and> row p \<le> 2 \<and> 0 \<le> col p \<and> col p \<le> 2"

definition isCorner :: "CellPosition \<Rightarrow> bool" where
  "isCorner p \<longleftrightarrow> (row p = 0 \<or> row p = 2) \<and> (col p = 0 \<or> col p = 2)"

definition isCenter :: "CellPosition \<Rightarrow> bool" where
  "isCenter p \<longleftrightarrow> row p = 1 \<and> col p = 1"

definition isEdge :: "CellPosition \<Rightarrow> bool" where
  "isEdge p \<longleftrightarrow> inGrid p \<and> \<not> isCorner p \<and> \<not> isCenter p"

subsection \<open>Vocabulary of the claims about the detector\<close>

text \<open>
  A board of the game: three rows of three cells (the invariant of the data model,
  every position of the 3x3 grid exactly once).
\<close>

definition isGrid3x3 :: "Board_003 \<Rightarrow> bool" where
  "isGrid3x3 board \<longleftrightarrow> length board = 3 \<and> list_all (\<lambda>r. length r = 3) board"

text \<open>What a cell holds: a player symbol, or nothing (also where there is no cell).\<close>

definition pieceAt :: "Board_003 \<Rightarrow> CellPosition \<Rightarrow> PlayerSymbol option" where
  "pieceAt board pos =
     (case getCell board (row pos) (col pos) of None \<Rightarrow> None | Some cell \<Rightarrow> piece cell)"

text \<open>All cells of a pattern hold the symbol \<open>s\<close>.\<close>

definition patternHeldBy :: "Board_003 \<Rightarrow> CellPosition list \<Rightarrow> PlayerSymbol \<Rightarrow> bool" where
  "patternHeldBy board pattern s = list_all (\<lambda>pos. pieceAt board pos = Some s) pattern"

text \<open>Every cell of the board holds a symbol.\<close>

definition allCellsFilled :: "Board_003 \<Rightarrow> bool" where
  "allCellsFilled board = list_all (list_all (\<lambda>cell. piece cell \<noteq> None)) board"

text \<open>
  The naive full scan that the specification compares the detector with (written from
  the specification, not from the code): some pattern of the table, any of the 8, is
  fully occupied by a single symbol.
\<close>

definition naiveFullScan :: "Board_003 \<Rightarrow> bool" where
  "naiveFullScan board =
     list_ex (\<lambda>pattern. patternHeldBy board pattern PlayerX \<or> patternHeldBy board pattern PlayerO)
       WIN_PATTERNS"

section \<open>The engine: move gate and move processing\<close>

text \<open>
  \<^verbatim>\<open>src/models/board.ts\<close>: a cell has a value (\<^verbatim>\<open>"X" | "O" | null\<close>) and its own
  position; a board is a flat array of cells together with its size. The field
  \<^verbatim>\<open>value\<close> is called \<open>cellValue\<close> and the field \<^verbatim>\<open>size\<close> is called \<open>boardSize\<close>
  here, because the source's names are taken in Isabelle.
\<close>

record Cell =
  cellValue :: "PlayerSymbol option"
  position :: CellPosition

record Board =
  cells :: "Cell list"
  boardSize :: int

text \<open>\<^verbatim>\<open>src/models/game-state.ts\<close>.\<close>

record GameState =
  board :: Board
  currentTurn :: PlayerSymbol
  moveInProgress :: bool

text \<open>
  \<^verbatim>\<open>validateMove\<close> of \<^verbatim>\<open>src/engine/move-validator.ts\<close>: the lock, the bounds against
  \<^verbatim>\<open>state.board.size\<close>, then the first cell found at the position; a position at
  which no cell is found passes.
\<close>

definition validateMove :: "GameState \<Rightarrow> CellPosition \<Rightarrow> MoveResult" where
  "validateMove state pos =
     (if moveInProgress state then Failure MOVE_IN_PROGRESS
      else if row pos < 0 \<or> row pos \<ge> boardSize (board state) \<or>
              col pos < 0 \<or> col pos \<ge> boardSize (board state)
           then Failure INVALID_POSITION
      else (case find (\<lambda>c. row (position c) = row pos \<and> col (position c) = col pos)
                   (cells (board state)) of
              Some cell \<Rightarrow> if cellValue cell \<noteq> None then Failure CELL_OCCUPIED else Success
            | None \<Rightarrow> Success))"

text \<open>\<^verbatim>\<open>switchTurn\<close> of \<^verbatim>\<open>src/engine/state-transitions.ts\<close>.\<close>

definition switchTurn :: "PlayerSymbol \<Rightarrow> PlayerSymbol" where
  "switchTurn current = (if current = PlayerX then PlayerO else PlayerX)"

text \<open>\<^verbatim>\<open>updateBoardWithMove\<close> of \<^verbatim>\<open>src/engine/state-transitions.ts\<close>.\<close>

definition updateBoardWithMove :: "Board \<Rightarrow> CellPosition \<Rightarrow> PlayerSymbol \<Rightarrow> Board" where
  "updateBoardWithMove b pos symbol =
     b\<lparr>cells :=
         map (\<lambda>cell. if row (position cell) = row pos \<and> col (position cell) = col pos
                      then cell\<lparr>cellValue := Some symbol\<rparr>
                      else cell)
           (cells b)\<rparr>"

text \<open>\<^verbatim>\<open>processMove\<close> of \<^verbatim>\<open>src/engine/state-transitions.ts\<close>.\<close>

definition processMove :: "GameState \<Rightarrow> CellPosition \<Rightarrow> GameState" where
  "processMove state pos =
     (let validation = validateMove state pos
      in if \<not> success validation then state
         else \<lparr>board = updateBoardWithMove (board state) pos (currentTurn state),
               currentTurn = switchTurn (currentTurn state),
               moveInProgress = False\<rparr>)"


subsection \<open>Vocabulary of the claims about the engine\<close>

text \<open>
  The engine keeps no game status: a game state is a board, a turn and a lock. What the
  specification calls a finished game is read off the board here, in the specification's
  words: a player holds a win pattern when its three cells all hold the player's symbol,
  and the board is full when every position within the board's size holds a symbol. A
  position is looked up as \<open>validateMove\<close> does it, by the first cell found there.
\<close>

definition hasCellAt :: "Board \<Rightarrow> CellPosition \<Rightarrow> bool" where
  "hasCellAt b pos \<longleftrightarrow>
     find (\<lambda>c. row (position c) = row pos \<and> col (position c) = col pos) (cells b) \<noteq> None"

definition valueAt :: "Board \<Rightarrow> CellPosition \<Rightarrow> PlayerSymbol option" where
  "valueAt b pos =
     (case find (\<lambda>c. row (position c) = row pos \<and> col (position c) = col pos) (cells b) of
        None \<Rightarrow> None
      | Some cell \<Rightarrow> cellValue cell)"

definition patternFilledBy :: "Board \<Rightarrow> CellPosition list \<Rightarrow> PlayerSymbol \<Rightarrow> bool" where
  "patternFilledBy b pattern s = list_all (\<lambda>pos. valueAt b pos = Some s) pattern"

definition holdsLine :: "Board \<Rightarrow> PlayerSymbol \<Rightarrow> bool" where
  "holdsLine b s = list_ex (\<lambda>pattern. patternFilledBy b pattern s) WIN_PATTERNS"

definition boardFull :: "Board \<Rightarrow> bool" where
  "boardFull b =
     list_all (\<lambda>r. list_all (\<lambda>c. valueAt b \<lparr>row = r, col = c\<rparr> \<noteq> None) [0..boardSize b - 1])
       [0..boardSize b - 1]"

section \<open>Example boards and states\<close>

text \<open>
  A full board on which X holds both row 0 and column 0 (X moved last, at the corner
  they share), reachable in play: five X, four O, no line of O.
\<close>

definition fullBoardWithWin :: Board_003 where
  "fullBoardWithWin =
     [[\<lparr>piece = Some PlayerX\<rparr>, \<lparr>piece = Some PlayerX\<rparr>, \<lparr>piece = Some PlayerX\<rparr>],
      [\<lparr>piece = Some PlayerX\<rparr>, \<lparr>piece = Some PlayerO\<rparr>, \<lparr>piece = Some PlayerO\<rparr>],
      [\<lparr>piece = Some PlayerX\<rparr>, \<lparr>piece = Some PlayerO\<rparr>, \<lparr>piece = Some PlayerO\<rparr>]]"

text \<open>The same board before the last move of X.\<close>

definition cornerEmptiedBoard :: Board_003 where
  "cornerEmptiedBoard =
     [[\<lparr>piece = None\<rparr>, \<lparr>piece = Some PlayerX\<rparr>, \<lparr>piece = Some PlayerX\<rparr>],
      [\<lparr>piece = Some PlayerX\<rparr>, \<lparr>piece = Some PlayerO\<rparr>, \<lparr>piece = Some PlayerO\<rparr>],
      [\<lparr>piece = Some PlayerX\<rparr>, \<lparr>piece = Some PlayerO\<rparr>, \<lparr>piece = Some PlayerO\<rparr>]]"

text \<open>
  The board of scenario 3 of the specification before its last move: eight cells filled,
  \<open>(2,2)\<close> empty.
\<close>

definition lastCellBoard :: Board_003 where
  "lastCellBoard =
     [[\<lparr>piece = Some PlayerX\<rparr>, \<lparr>piece = Some PlayerO\<rparr>, \<lparr>piece = Some PlayerX\<rparr>],
      [\<lparr>piece = Some PlayerO\<rparr>, \<lparr>piece = Some PlayerX\<rparr>, \<lparr>piece = Some PlayerO\<rparr>],
      [\<lparr>piece = Some PlayerO\<rparr>, \<lparr>piece = Some PlayerX\<rparr>, \<lparr>piece = None\<rparr>]]"

text \<open>
  The implemented engine: the empty board that \<^verbatim>\<open>createEmptyBoard(3)\<close> builds, the
  initial state of \<^verbatim>\<open>createInitialGameState\<close>, and the same state with the move
  lock set.
\<close>

definition emptyBoard3 :: Board where
  "emptyBoard3 =
     \<lparr>cells = map (\<lambda>p. \<lparr>cellValue = None, position = p\<rparr>)
         [\<lparr>row = 0, col = 0\<rparr>, \<lparr>row = 0, col = 1\<rparr>, \<lparr>row = 0, col = 2\<rparr>,
          \<lparr>row = 1, col = 0\<rparr>, \<lparr>row = 1, col = 1\<rparr>, \<lparr>row = 1, col = 2\<rparr>,
          \<lparr>row = 2, col = 0\<rparr>, \<lparr>row = 2, col = 1\<rparr>, \<lparr>row = 2, col = 2\<rparr>],
      boardSize = 3\<rparr>"

definition initialState :: GameState where
  "initialState = \<lparr>board = emptyBoard3, currentTurn = PlayerX, moveInProgress = False\<rparr>"

definition lockedState :: GameState where
  "lockedState = \<lparr>board = emptyBoard3, currentTurn = PlayerX, moveInProgress = True\<rparr>"

text \<open>A 3x3 board of the engine from its nine values, row by row.\<close>

definition board3 :: "PlayerSymbol option list \<Rightarrow> Board" where
  "board3 vs =
     \<lparr>cells = map (\<lambda>(p, v). \<lparr>cellValue = v, position = p\<rparr>)
         (zip [\<lparr>row = 0, col = 0\<rparr>, \<lparr>row = 0, col = 1\<rparr>, \<lparr>row = 0, col = 2\<rparr>,
               \<lparr>row = 1, col = 0\<rparr>, \<lparr>row = 1, col = 1\<rparr>, \<lparr>row = 1, col = 2\<rparr>,
               \<lparr>row = 2, col = 0\<rparr>, \<lparr>row = 2, col = 1\<rparr>, \<lparr>row = 2, col = 2\<rparr>] vs),
      boardSize = 3\<rparr>"

text \<open>
  A game that X has won on row 0 with cells left: X X X / O O _ / _ _ _, and it is the
  turn of O, as the engine leaves it after the third move of X.
\<close>

definition wonGame :: GameState where
  "wonGame =
     \<lparr>board = board3 [Some PlayerX, Some PlayerX, Some PlayerX,
                       Some PlayerO, Some PlayerO, None,
                       None, None, None],
      currentTurn = PlayerO, moveInProgress = False\<rparr>"

text \<open>
  Scenario 3 of the specification in the engine: X O X / O X O / O X _ with X to move;
  the move at \<open>(2,2)\<close> fills the board and completes the main diagonal.
\<close>

definition lastCellGame :: GameState where
  "lastCellGame =
     \<lparr>board = board3 [Some PlayerX, Some PlayerO, Some PlayerX,
                       Some PlayerO, Some PlayerX, Some PlayerO,
                       Some PlayerO, Some PlayerX, None],
      currentTurn = PlayerX, moveInProgress = False\<rparr>"

definition lastCellFilledBoard :: Board where
  "lastCellFilledBoard =
     board3 [Some PlayerX, Some PlayerO, Some PlayerX,
             Some PlayerO, Some PlayerX, Some PlayerO,
             Some PlayerO, Some PlayerX, Some PlayerX]"


section \<open>Lemmas: boards and positions of the 3x3 grid\<close>

lemma length3E:
  assumes "length xs = 3"
  obtains a b c where "xs = [a, b, c]"
  using assms by (cases xs; cases "tl xs"; cases "tl (tl xs)") auto

lemma isGrid3x3E:
  assumes "isGrid3x3 brd"
  obtains a0 a1 a2 b0 b1 b2 c0 c1 c2 where
    "brd = [[a0, a1, a2], [b0, b1, b2], [c0, c1, c2]]"
proof -
  from assms obtain r0 r1 r2 where b: "brd = [r0, r1, r2]"
    unfolding isGrid3x3_def by (auto elim: length3E)
  with assms have "length r0 = 3" "length r1 = 3" "length r2 = 3"
    unfolding isGrid3x3_def by simp_all
  then show ?thesis using b that by (auto elim!: length3E)
qed

lemma inGrid_cases:
  "inGrid p \<Longrightarrow> (row p = 0 \<or> row p = 1 \<or> row p = 2) \<and> (col p = 0 \<or> col p = 1 \<or> col p = 2)"
  unfolding inGrid_def by arith

lemma getCell_inGrid:
  assumes "isGrid3x3 brd" "inGrid p"
  shows "getCell brd (row p) (col p) = Some (brd ! nat (row p) ! nat (col p))"
proof -
  from assms(1) obtain a0 a1 a2 b0 b1 b2 c0 c1 c2 where
    b: "brd = [[a0, a1, a2], [b0, b1, b2], [c0, c1, c2]]" by (rule isGrid3x3E)
  from inGrid_cases[OF assms(2)] show ?thesis unfolding b
    by (elim conjE disjE; simp add: getCell_def)
qed

section \<open>Lemmas: the pattern table\<close>

lemma patternAt_cases:
  assumes "patternAt i = Some P"
  shows "i = 0 \<or> i = 1 \<or> i = 2 \<or> i = 3 \<or> i = 4 \<or> i = 5 \<or> i = 6 \<or> i = 7"
proof -
  from assms have "0 \<le> i \<and> i < 8"
    by (simp add: patternAt_def WIN_PATTERNS_def split: if_splits)
  then show ?thesis by arith
qed

lemma patternAt_nth:
  "i < 8 \<Longrightarrow> patternAt (int i) = Some (WIN_PATTERNS ! i)"
  by (simp add: patternAt_def WIN_PATTERNS_def)

lemma patternAt_Some:
  "patternAt i = Some P \<Longrightarrow> 0 \<le> i \<and> nat i < 8 \<and> P = WIN_PATTERNS ! nat i"
  by (auto simp: patternAt_def WIN_PATTERNS_def split: if_splits)

lemma patternAt_inGrid:
  assumes "patternAt i = Some P"
  shows "list_all inGrid P"
  using patternAt_cases[OF assms] assms
  by (elim disjE; auto simp: patternAt_def WIN_PATTERNS_def inGrid_def)

lemma relevant_iff:
  assumes "inGrid p"
  shows "i \<in> set (getRelevantPatternIndices p) \<longleftrightarrow> (\<exists>P. patternAt i = Some P \<and> p \<in> set P)"
proof -
  obtain r c where p: "p = \<lparr>row = r, col = c\<rparr>" by (cases p) simp
  from inGrid_cases[OF assms] p
  have rc: "(r = 0 \<or> r = 1 \<or> r = 2) \<and> (c = 0 \<or> c = 1 \<or> c = 2)" by simp
  show ?thesis
  proof
    assume "i \<in> set (getRelevantPatternIndices p)"
    with rc show "\<exists>P. patternAt i = Some P \<and> p \<in> set P" unfolding p
      by (elim conjE disjE;
          auto simp: getRelevantPatternIndices_def patternAt_def WIN_PATTERNS_def)
  next
    assume "\<exists>P. patternAt i = Some P \<and> p \<in> set P"
    then obtain P where P: "patternAt i = Some P" "p \<in> set P" by blast
    from patternAt_cases[OF P(1)] P show "i \<in> set (getRelevantPatternIndices p)"
      unfolding p
      by (elim disjE;
          auto simp: getRelevantPatternIndices_def patternAt_def WIN_PATTERNS_def)
  qed
qed

lemma relevant_sorted:
  assumes "inGrid p"
  shows "sorted_wrt (<) (getRelevantPatternIndices p)"
proof -
  obtain r c where p: "p = \<lparr>row = r, col = c\<rparr>" by (cases p) simp
  from inGrid_cases[OF assms] p
  have rc: "(r = 0 \<or> r = 1 \<or> r = 2) \<and> (c = 0 \<or> c = 1 \<or> c = 2)" by simp
  then show ?thesis unfolding p
    by (elim conjE disjE; simp add: getRelevantPatternIndices_def)
qed

section \<open>Lemmas: the detector on a 3x3 board\<close>

lemma isWinningLine_inGrid:
  assumes "isGrid3x3 brd" "list_all inGrid pattern"
  shows "isWinningLine brd pattern s = Some (patternHeldBy brd pattern s)"
  using assms(2)
  by (induction pattern)
     (simp_all add: patternHeldBy_def pieceAt_def getCell_inGrid[OF assms(1)])

lemma checkWinLoop_grid:
  assumes "isGrid3x3 brd" "list_all (\<lambda>i. \<exists>P. patternAt i = Some P) js"
  shows "checkWinLoop brd s js =
           Some (case find (\<lambda>j. patternHeldBy brd (WIN_PATTERNS ! nat j) s) js of
                   None \<Rightarrow> None
                 | Some j \<Rightarrow> Some \<lparr>winner = s, winningLine = WIN_PATTERNS ! nat j\<rparr>)"
  using assms(2)
proof (induction js)
  case Nil
  then show ?case by simp
next
  case (Cons j js)
  then obtain P where P: "patternAt j = Some P" by auto
  then have eq: "P = WIN_PATTERNS ! nat j" by (simp add: patternAt_Some)
  have "isWinningLine brd P s = Some (patternHeldBy brd P s)"
    by (rule isWinningLine_inGrid[OF assms(1) patternAt_inGrid[OF P]])
  with Cons P eq show ?case by simp
qed

lemma find_sorted_least:
  "sorted_wrt (<) (xs :: int list) \<Longrightarrow> find Q xs = Some j \<Longrightarrow>
     j \<in> set xs \<and> Q j \<and> (\<forall>k\<in>set xs. k < j \<longrightarrow> \<not> Q k)"
  by (induction xs) (auto split: if_splits)

lemma checkDraw_grid:
  assumes "isGrid3x3 brd"
  shows "checkDraw brd = Some (allCellsFilled brd)"
proof -
  from assms(1) obtain a0 a1 a2 b0 b1 b2 c0 c1 c2 where
    b: "brd = [[a0, a1, a2], [b0, b1, b2], [c0, c1, c2]]" by (rule isGrid3x3E)
  have u: "[0..<3] = [0, 1, 2]" by (simp add: upt_rec)
  show ?thesis unfolding b by (simp add: checkDraw_def allCellsFilled_def u getCell_def)
qed

lemma checkWin_grid:
  assumes "isGrid3x3 brd" "inGrid p"
  shows "checkWin brd p =
     Some (case pieceAt brd p of
             None \<Rightarrow> None
           | Some s \<Rightarrow>
              (case find (\<lambda>j. patternHeldBy brd (WIN_PATTERNS ! nat j) s)
                      (getRelevantPatternIndices p) of
                 None \<Rightarrow> None
               | Some j \<Rightarrow> Some \<lparr>winner = s, winningLine = WIN_PATTERNS ! nat j\<rparr>))"
proof -
  have v: "list_all (\<lambda>i. \<exists>P. patternAt i = Some P) (getRelevantPatternIndices p)"
    using relevant_iff[OF assms(2)] by (auto simp: list_all_iff)
  show ?thesis
    by (simp add: checkWin_def pieceAt_def getCell_inGrid[OF assms]
          checkWinLoop_grid[OF assms(1) v] split: option.splits)
qed

section \<open>Lemmas: placing a piece\<close>

lemma setCellValue_inGrid:
  assumes "isGrid3x3 brd" "inGrid p"
  shows "\<exists>nb. setCellValue brd (row p) (col p) v = Some nb"
  by (simp add: setCellValue_def getCell_inGrid[OF assms])

lemma setCellValue_isGrid3x3:
  assumes "setCellValue brd r c v = Some nb" "isGrid3x3 brd"
  shows "isGrid3x3 nb"
  using assms
  by (auto simp: setCellValue_def isGrid3x3_def list_all_iff getCell_def
           split: option.splits if_splits dest!: set_update_subset_insert[THEN subsetD])

lemma pieceAt_setCellValue_same:
  assumes "setCellValue brd (row p) (col p) v = Some nb"
  shows "pieceAt nb p = v"
  using assms
  by (auto simp: setCellValue_def pieceAt_def getCell_def split: option.splits if_splits)

lemma pieceAt_setCellValue_other:
  assumes "setCellValue brd (row p) (col p) v = Some nb" "q \<noteq> p"
  shows "pieceAt nb q = pieceAt brd q"
proof -
  from assms(2) have ne: "row q \<noteq> row p \<or> col q \<noteq> col p"
    by (auto simp: CellPosition.equality)
  from assms(1) have rng: "0 \<le> row p" "row p < int (length brd)"
      "0 \<le> col p" "col p < int (length (brd ! nat (row p)))"
    and nb: "nb = brd[nat (row p) := (brd ! nat (row p))[nat (col p) :=
                  (brd ! nat (row p) ! nat (col p))\<lparr>piece := v\<rparr>]]"
    by (auto simp: setCellValue_def getCell_def split: option.splits if_splits)
  show ?thesis
  proof (cases "row q = row p")
    case True
    with ne have c: "col q \<noteq> col p" by simp
    show ?thesis unfolding nb pieceAt_def getCell_def using True c rng
      by (auto simp: nth_list_update)
  next
    case False
    show ?thesis unfolding nb pieceAt_def getCell_def using False rng
      by (auto simp: nth_list_update)
  qed
qed

lemma patternHeldBy_setCellValue_other:
  assumes "setCellValue brd (row p) (col p) v = Some nb" "p \<notin> set P"
  shows "patternHeldBy nb P s = patternHeldBy brd P s"
proof -
  have "pieceAt nb q = pieceAt brd q" if "q \<in> set P" for q
    using pieceAt_setCellValue_other[OF assms(1), of q] that assms(2) by auto
  then show ?thesis by (simp add: patternHeldBy_def list_all_iff)
qed

lemma length_WIN_PATTERNS:
  "length WIN_PATTERNS = 8"
  by (simp add: WIN_PATTERNS_def)

lemma WIN_PATTERNS_nth_mem:
  "i < 8 \<Longrightarrow> WIN_PATTERNS ! i \<in> set WIN_PATTERNS"
  by (simp add: length_WIN_PATTERNS)

lemma WIN_PATTERNS_memE:
  assumes "P \<in> set WIN_PATTERNS"
  obtains i where "i < 8" "P = WIN_PATTERNS ! i"
proof -
  from assms obtain i where "i < length WIN_PATTERNS" "P = WIN_PATTERNS ! i"
    by (auto simp: in_set_conv_nth)
  then show ?thesis using that by (simp add: length_WIN_PATTERNS)
qed

lemma pattern_mem_inGrid:
  assumes "i < 8" "p \<in> set (WIN_PATTERNS ! i)"
  shows "inGrid p"
  using patternAt_inGrid[OF patternAt_nth[OF assms(1)]] assms(2)
  by (simp add: list_all_iff)

text \<open>
  The first relevant pattern that the player holds is what \<open>checkWin\<close> returns; the
  relevant indices are ascending, so it is the lowest one.
\<close>

lemma checkWin_held:
  assumes g: "isGrid3x3 brd" and i: "i < 8"
    and held: "patternHeldBy brd (WIN_PATTERNS ! i) s"
    and mem: "lastMove \<in> set (WIN_PATTERNS ! i)"
  shows "\<exists>j\<le>i. lastMove \<in> set (WIN_PATTERNS ! j) \<and> patternHeldBy brd (WIN_PATTERNS ! j) s
           \<and> (\<forall>k<j. lastMove \<in> set (WIN_PATTERNS ! k) \<longrightarrow> \<not> patternHeldBy brd (WIN_PATTERNS ! k) s)
           \<and> checkWin brd lastMove = Some (Some \<lparr>winner = s, winningLine = WIN_PATTERNS ! j\<rparr>)"
proof -
  let ?rel = "getRelevantPatternIndices lastMove"
  let ?Q = "\<lambda>j. patternHeldBy brd (WIN_PATTERNS ! nat j) s"
  have ig: "inGrid lastMove" by (rule pattern_mem_inGrid[OF i mem])
  from held mem have pc: "pieceAt brd lastMove = Some s"
    by (simp add: patternHeldBy_def list_all_iff)
  have irel: "int i \<in> set ?rel"
    using relevant_iff[OF ig, of "int i"] patternAt_nth[OF i] mem by simp
  with held have "\<exists>x\<in>set ?rel. ?Q x" by (intro bexI[of _ "int i"]) simp_all
  then obtain j where f: "find ?Q ?rel = Some j"
    by (cases "find ?Q ?rel") (auto simp: find_None_iff)
  from find_sorted_least[OF relevant_sorted[OF ig] f]
  have j: "j \<in> set ?rel" "?Q j" "\<forall>k\<in>set ?rel. k < j \<longrightarrow> \<not> ?Q k" by simp_all
  from j(1) relevant_iff[OF ig, of j] obtain P where P: "patternAt j = Some P" "lastMove \<in> set P"
    by blast
  from patternAt_Some[OF P(1)] have j0: "0 \<le> j" "nat j < 8" "P = WIN_PATTERNS ! nat j"
    by simp_all
  have le: "nat j \<le> i"
  proof (rule ccontr)
    assume "\<not> nat j \<le> i"
    then have "int i < j" by linarith
    with j(3) irel have "\<not> ?Q (int i)" by blast
    with held show False by simp
  qed
  have least: "\<forall>k<nat j. lastMove \<in> set (WIN_PATTERNS ! k) \<longrightarrow> \<not> patternHeldBy brd (WIN_PATTERNS ! k) s"
  proof (intro allI impI)
    fix k assume k: "k < nat j" and km: "lastMove \<in> set (WIN_PATTERNS ! k)"
    from k j0(2) have k8: "k < 8" by simp
    have "int k \<in> set ?rel"
      using relevant_iff[OF ig, of "int k"] patternAt_nth[OF k8] km by simp
    moreover from k have "int k < j" by linarith
    ultimately have "\<not> ?Q (int k)" using j(3) by blast
    then show "\<not> patternHeldBy brd (WIN_PATTERNS ! k) s" by simp
  qed
  have cw: "checkWin brd lastMove = Some (Some \<lparr>winner = s, winningLine = WIN_PATTERNS ! nat j\<rparr>)"
    by (simp add: checkWin_grid[OF g ig] pc f)
  from le P(2) j0(3) j(2) least cw show ?thesis by (intro exI[of _ "nat j"]) simp
qed

lemma checkWin_Some_held:
  assumes g: "isGrid3x3 brd" and ig: "inGrid p"
    and cw: "checkWin brd p = Some (Some w)"
  shows "\<exists>i<8. p \<in> set (WIN_PATTERNS ! i) \<and> pieceAt brd p = Some (winner w)
            \<and> winningLine w = WIN_PATTERNS ! i \<and> patternHeldBy brd (WIN_PATTERNS ! i) (winner w)"
proof -
  let ?rel = "getRelevantPatternIndices p"
  from cw obtain s where s: "pieceAt brd p = Some s"
    by (cases "pieceAt brd p") (simp_all add: checkWin_grid[OF g ig])
  let ?Q = "\<lambda>j. patternHeldBy brd (WIN_PATTERNS ! nat j) s"
  from cw s obtain j where f: "find ?Q ?rel = Some j"
    by (cases "find ?Q ?rel") (simp_all add: checkWin_grid[OF g ig])
  from cw s f have w: "w = \<lparr>winner = s, winningLine = WIN_PATTERNS ! nat j\<rparr>"
    by (simp add: checkWin_grid[OF g ig])
  from find_sorted_least[OF relevant_sorted[OF ig] f]
  have j: "j \<in> set ?rel" "?Q j" by simp_all
  from j(1) relevant_iff[OF ig, of j] obtain P where P: "patternAt j = Some P" "p \<in> set P"
    by blast
  from patternAt_Some[OF P(1)] have j0: "nat j < 8" "P = WIN_PATTERNS ! nat j"
    by simp_all
  from j0 P(2) s w j(2) show ?thesis by (intro exI[of _ "nat j"]) simp
qed

lemma checkWin_total:
  assumes "isGrid3x3 brd" "inGrid p"
  shows "checkWin brd p \<noteq> None"
  by (simp add: checkWin_grid[OF assms])

lemma pieceAt_inGrid:
  assumes "isGrid3x3 brd" "pieceAt brd p \<noteq> None"
  shows "inGrid p"
proof -
  from assms(2) have r: "0 \<le> row p" "row p < int (length brd)"
    and c: "0 \<le> col p" "col p < int (length (brd ! nat (row p)))"
    by (auto simp: pieceAt_def getCell_def split: if_splits)
  from r have "brd ! nat (row p) \<in> set brd" by (intro nth_mem) linarith
  with assms(1) have "length (brd ! nat (row p)) = 3" "length brd = 3"
    by (simp_all add: isGrid3x3_def list_all_iff)
  with r c show ?thesis by (simp add: inGrid_def)
qed

text \<open>The definitions that evaluate the detector on a concrete board.\<close>

lemmas eval_defs = isGrid3x3_def patternHeldBy_def pieceAt_def getCell_def WIN_PATTERNS_def
  checkWin_def getRelevantPatternIndices_def patternAt_def setCellValue_def
  naiveFullScan_def allCellsFilled_def

section \<open>Lemmas: the engine\<close>

lemma upto_0_2: "[0..(2::int)] = [0, 1, 2]"
  by (simp add: upto.simps)

text \<open>The definitions that evaluate the engine on a concrete state.\<close>

lemmas engine_defs = validateMove_def processMove_def updateBoardWithMove_def switchTurn_def
  valueAt_def hasCellAt_def patternFilledBy_def holdsLine_def boardFull_def board3_def
  WIN_PATTERNS_def upto_0_2
  CELL_OCCUPIED_def MOVE_IN_PROGRESS_def INVALID_POSITION_def

lemma switchTurn_neq: "switchTurn t \<noteq> t"
  by (cases t) (simp_all add: switchTurn_def)

lemma find_map_same:
  assumes "\<And>x. P (f x) = P x"
  shows "find P (map f xs) = map_option f (find P xs)"
  by (induction xs) (simp_all add: assms)

lemma valueAt_updateBoardWithMove:
  "valueAt (updateBoardWithMove b pos s) q =
     (if q = pos \<and> hasCellAt b pos then Some s else valueAt b q)"
proof -
  let ?f = "\<lambda>cell. if row (position cell) = row pos \<and> col (position cell) = col pos
                    then cell\<lparr>cellValue := Some s\<rparr> else cell"
  let ?P = "\<lambda>c. row (position c) = row q \<and> col (position c) = col q"
  have f: "find ?P (map ?f (cells b)) = map_option ?f (find ?P (cells b))"
    by (rule find_map_same) simp
  show ?thesis
  proof (cases "find ?P (cells b)")
    case None
    then show ?thesis using f
      by (auto simp: valueAt_def hasCellAt_def updateBoardWithMove_def)
  next
    case (Some c)
    then have "?P c" by (auto simp: find_Some_iff)
    with Some f show ?thesis
      by (auto simp: valueAt_def hasCellAt_def updateBoardWithMove_def CellPosition.equality)
  qed
qed



section \<open>The claims\<close>

subsection \<open>C1: what processMove returns for a winning last move\<close>

text \<open>
  Claim C1, as stated, fails on \<open>processMove\<close>. On the board of scenario 3 of the
  specification (X O X / O X O / O X _, X to move) the move at \<open>(2,2)\<close> is accepted,
  completes the main diagonal for X (pattern 6, not filled before, filled after) and
  fills the last empty cell. The state returned is the full board, the turn handed to O
  and the lock cleared, and that is the whole of it: a game state has no status, so none
  is \<open>X_WON\<close>, and the turn passes to O as after any other move.
\<close>

theorem processMove_final_win_counterexample:
  "validateMove lastCellGame \<lparr>row = 2, col = 2\<rparr> = Success
   \<and> \<not> patternFilledBy (board lastCellGame) (WIN_PATTERNS ! 6) PlayerX
   \<and> patternFilledBy lastCellFilledBoard (WIN_PATTERNS ! 6) PlayerX
   \<and> boardFull lastCellFilledBoard
   \<and> processMove lastCellGame \<lparr>row = 2, col = 2\<rparr>
       = \<lparr>board = lastCellFilledBoard, currentTurn = PlayerO, moveInProgress = False\<rparr>"
  by (simp add: engine_defs lastCellGame_def lastCellFilledBoard_def)

text \<open>
  Claim C1, amended. For every game state and every accepted move, also one whose
  placement completes a win pattern for the mover and fills the last empty cell,
  \<open>processMove\<close> returns the state that consists of the board with the move placed,
  the turn switched to the other player and the lock cleared, and of nothing else: no
  status is recorded, and neither a win nor a draw is evaluated. On the returned board
  the target holds the mover's symbol (where the board has a cell there), every other
  position holds what it held, and the size is the same.
\<close>

theorem processMove_accepted:
  assumes "success (validateMove state pos)"
  shows "processMove state pos =
           \<lparr>board = updateBoardWithMove (board state) pos (currentTurn state),
            currentTurn = switchTurn (currentTurn state), moveInProgress = False\<rparr>
       \<and> currentTurn (processMove state pos) \<noteq> currentTurn state
       \<and> boardSize (board (processMove state pos)) = boardSize (board state)
       \<and> (\<forall>q. valueAt (board (processMove state pos)) q =
               (if q = pos \<and> hasCellAt (board state) pos then Some (currentTurn state)
                else valueAt (board state) q))"
  using assms
  by (simp add: processMove_def switchTurn_neq valueAt_updateBoardWithMove)
     (simp add: updateBoardWithMove_def)

text \<open>The first move of a game: X at \<open>(0,0)\<close>, then it is the turn of O.\<close>

theorem processMove_accepted_witness:
  "success (validateMove initialState \<lparr>row = 0, col = 0\<rparr>)
   \<and> currentTurn (processMove initialState \<lparr>row = 0, col = 0\<rparr>) = PlayerO
   \<and> moveInProgress (processMove initialState \<lparr>row = 0, col = 0\<rparr>) = False
   \<and> valueAt (board (processMove initialState \<lparr>row = 0, col = 0\<rparr>)) \<lparr>row = 0, col = 0\<rparr>
       = Some PlayerX
   \<and> valueAt (board (processMove initialState \<lparr>row = 0, col = 0\<rparr>)) \<lparr>row = 1, col = 1\<rparr>
       = None"
proof -
  have h: "success (validateMove initialState \<lparr>row = 0, col = 0\<rparr>)"
    by (simp add: engine_defs initialState_def emptyBoard3_def)
  have c: "hasCellAt (board initialState) \<lparr>row = 0, col = 0\<rparr>"
     "valueAt (board initialState) \<lparr>row = 1, col = 1\<rparr> = None"
     "currentTurn initialState = PlayerX"
    by (simp_all add: engine_defs initialState_def emptyBoard3_def)
  from processMove_accepted[OF h] have
    r: "processMove initialState \<lparr>row = 0, col = 0\<rparr> =
           \<lparr>board = updateBoardWithMove (board initialState) \<lparr>row = 0, col = 0\<rparr>
                      (currentTurn initialState),
            currentTurn = switchTurn (currentTurn initialState), moveInProgress = False\<rparr>"
    and v: "\<And>q. valueAt (board (processMove initialState \<lparr>row = 0, col = 0\<rparr>)) q =
               (if q = \<lparr>row = 0, col = 0\<rparr> \<and> hasCellAt (board initialState) \<lparr>row = 0, col = 0\<rparr>
                then Some (currentTurn initialState) else valueAt (board initialState) q)"
    by blast+
  have t: "currentTurn (processMove initialState \<lparr>row = 0, col = 0\<rparr>) = PlayerO"
      "moveInProgress (processMove initialState \<lparr>row = 0, col = 0\<rparr>) = False"
    by (simp_all add: r c(3) switchTurn_def)
  from h t v[of "\<lparr>row = 0, col = 0\<rparr>"] v[of "\<lparr>row = 1, col = 1\<rparr>"] c
  show ?thesis by simp
qed

subsection \<open>C2: what checkWin returns on a complete pattern\<close>

text \<open>
  Claim C2, as stated, fails: on a board where X holds both row 0 and column 0, with the
  last move at their common corner \<open>(0,0)\<close> and \<open>P\<close> the column (pattern 3), all cells
  of \<open>P\<close> hold X and the last move belongs to \<open>P\<close>, but \<open>checkWin\<close> returns the row
  (pattern 0) as the winning line, which is not set-equal to \<open>P\<close>.
\<close>

theorem checkWin_winningLine_counterexample:
  "isGrid3x3 fullBoardWithWin
   \<and> patternHeldBy fullBoardWithWin (WIN_PATTERNS ! 3) PlayerX
   \<and> \<lparr>row = 0, col = 0\<rparr> \<in> set (WIN_PATTERNS ! 3)
   \<and> checkWin fullBoardWithWin \<lparr>row = 0, col = 0\<rparr>
       = Some (Some \<lparr>winner = PlayerX, winningLine = WIN_PATTERNS ! 0\<rparr>)
   \<and> set (WIN_PATTERNS ! 0) \<noteq> set (WIN_PATTERNS ! 3)"
proof -
  have "\<lparr>row = 0, col = 1\<rparr> \<in> set (WIN_PATTERNS ! 0)"
       "\<lparr>row = 0, col = 1\<rparr> \<notin> set (WIN_PATTERNS ! 3)"
    by (simp_all add: WIN_PATTERNS_def)
  then have "set (WIN_PATTERNS ! 0) \<noteq> set (WIN_PATTERNS ! 3)" by blast
  then show ?thesis by (simp add: eval_defs fullBoardWithWin_def)
qed

text \<open>
  Claim C2, amended. For every 3x3 board and every one of the 8 win patterns \<open>P\<close>
  (the pattern of index \<open>i\<close>), if all three cells of \<open>P\<close> hold the same symbol \<open>s\<close>,
  then \<open>checkWin\<close> with any last move that belongs to \<open>P\<close> returns a result whose
  winner is \<open>s\<close> and whose winning line is the lowest-indexed pattern through the last
  move that \<open>s\<close> holds completely; its index \<open>j\<close> is at most \<open>i\<close>, so the winning line
  is \<open>P\<close> itself when no lower-indexed pattern through the last move is complete too.
\<close>

theorem checkWin_lowest_held_pattern:
  assumes "isGrid3x3 brd" and "i < 8"
    and "patternHeldBy brd (WIN_PATTERNS ! i) s" and "lastMove \<in> set (WIN_PATTERNS ! i)"
  shows "\<exists>j\<le>i. lastMove \<in> set (WIN_PATTERNS ! j) \<and> patternHeldBy brd (WIN_PATTERNS ! j) s
           \<and> (\<forall>k<j. lastMove \<in> set (WIN_PATTERNS ! k) \<longrightarrow>
                  \<not> patternHeldBy brd (WIN_PATTERNS ! k) s)
           \<and> checkWin brd lastMove = Some (Some \<lparr>winner = s, winningLine = WIN_PATTERNS ! j\<rparr>)"
  using assms by (rule checkWin_held)

text \<open>
  On the same board with the last move at \<open>(2,0)\<close>, column 0 is the only complete
  pattern through the last move, and it is the winning line.
\<close>

theorem checkWin_lowest_held_pattern_witness:
  "isGrid3x3 fullBoardWithWin
   \<and> patternHeldBy fullBoardWithWin (WIN_PATTERNS ! 3) PlayerX
   \<and> \<lparr>row = 2, col = 0\<rparr> \<in> set (WIN_PATTERNS ! 3)
   \<and> checkWin fullBoardWithWin \<lparr>row = 2, col = 0\<rparr>
       = Some (Some \<lparr>winner = PlayerX, winningLine = WIN_PATTERNS ! 3\<rparr>)"
proof -
  have h: "isGrid3x3 fullBoardWithWin" "(3::nat) < 8"
     "patternHeldBy fullBoardWithWin (WIN_PATTERNS ! 3) PlayerX"
     "\<lparr>row = 2, col = 0\<rparr> \<in> set (WIN_PATTERNS ! 3)"
    by (simp_all add: eval_defs fullBoardWithWin_def)
  from checkWin_lowest_held_pattern[OF h] h show ?thesis
    by (simp add: eval_defs fullBoardWithWin_def)
qed

subsection \<open>C3: which states are absorbing\<close>




subsection \<open>C4: the reduced check agrees with the full scan\<close>

text \<open>
  Claim C4. For every 3x3 board \<open>B\<close> and position \<open>p\<close> such that the cell at \<open>p\<close> is
  not empty and \<open>B\<close> with the cell at \<open>p\<close> emptied has no win pattern fully occupied by
  one symbol, \<open>checkWin B p\<close>, which reads only the patterns through \<open>p\<close>, returns a
  win if and only if the naive scan of all 8 patterns finds a pattern fully occupied by
  a single symbol (and it returns, it does not throw).
\<close>

theorem checkWin_complete:
  assumes g: "isGrid3x3 brd"
    and occ: "pieceAt brd p \<noteq> None"
    and emp: "setCellValue brd (row p) (col p) None = Some emptied"
    and before: "\<not> naiveFullScan emptied"
  shows "checkWin brd p \<noteq> None
       \<and> ((\<exists>w. checkWin brd p = Some (Some w)) \<longleftrightarrow> naiveFullScan brd)"
proof -
  have ig: "inGrid p" by (rule pieceAt_inGrid[OF g occ])
  have "naiveFullScan brd" if "checkWin brd p = Some (Some w)" for w
  proof -
    from checkWin_Some_held[OF g ig that] obtain i where
      i: "i < 8" "patternHeldBy brd (WIN_PATTERNS ! i) (winner w)" by blast
    have "patternHeldBy brd (WIN_PATTERNS ! i) PlayerX
          \<or> patternHeldBy brd (WIN_PATTERNS ! i) PlayerO"
      using i(2) by (cases "winner w") simp_all
    with WIN_PATTERNS_nth_mem[OF i(1)] show ?thesis
      unfolding naiveFullScan_def list_ex_iff by blast
  qed
  moreover have "\<exists>w. checkWin brd p = Some (Some w)" if "naiveFullScan brd"
  proof -
    from that obtain P s where P: "P \<in> set WIN_PATTERNS" "patternHeldBy brd P s"
      unfolding naiveFullScan_def list_ex_iff by blast
    from P(1) obtain i where i: "i < 8" "P = WIN_PATTERNS ! i" by (rule WIN_PATTERNS_memE)
    have "p \<in> set P"
    proof (rule ccontr)
      assume "p \<notin> set P"
      from patternHeldBy_setCellValue_other[OF emp this] P(2)
      have "patternHeldBy emptied P s" by simp
      then have "patternHeldBy emptied P PlayerX \<or> patternHeldBy emptied P PlayerO"
        by (cases s) simp_all
      with P(1) have "naiveFullScan emptied" unfolding naiveFullScan_def list_ex_iff by blast
      with before show False by simp
    qed
    with checkWin_held[OF g i(1)] P(2) i(2) show ?thesis by blast
  qed
  ultimately show ?thesis using checkWin_total[OF g ig] by blast
qed

text \<open>
  X completes row 0 and column 0 at the corner \<open>(0,0)\<close>: no pattern was complete before
  the move, the full scan finds one after it, and so does \<open>checkWin\<close>.
\<close>

theorem checkWin_complete_witness:
  "isGrid3x3 fullBoardWithWin
   \<and> pieceAt fullBoardWithWin \<lparr>row = 0, col = 0\<rparr> \<noteq> None
   \<and> setCellValue fullBoardWithWin 0 0 None = Some cornerEmptiedBoard
   \<and> \<not> naiveFullScan cornerEmptiedBoard
   \<and> naiveFullScan fullBoardWithWin
   \<and> (\<exists>w. checkWin fullBoardWithWin \<lparr>row = 0, col = 0\<rparr> = Some (Some w))"
proof -
  have h: "isGrid3x3 fullBoardWithWin"
    "pieceAt fullBoardWithWin \<lparr>row = 0, col = 0\<rparr> \<noteq> None"
    "setCellValue fullBoardWithWin (row \<lparr>row = 0, col = 0\<rparr>) (col \<lparr>row = 0, col = 0\<rparr>) None
       = Some cornerEmptiedBoard"
    "\<not> naiveFullScan cornerEmptiedBoard"
    by (simp_all add: eval_defs fullBoardWithWin_def cornerEmptiedBoard_def)
  have n: "naiveFullScan fullBoardWithWin"
    by (simp add: eval_defs fullBoardWithWin_def)
  from checkWin_complete[OF h] h n show ?thesis by simp
qed

subsection \<open>C5: checkDraw is the full-board test\<close>

text \<open>
  Claim C5. For every 3x3 board, \<open>checkDraw\<close> returns (true or false, it does not
  throw), and it returns true if and only if every one of the 9 cells holds a symbol.
  Nothing else of the board matters: in particular not whether a win pattern is
  complete.
\<close>

theorem checkDraw_iff_all_cells_filled:
  assumes "isGrid3x3 brd"
  shows "(checkDraw brd = Some True \<or> checkDraw brd = Some False)
       \<and> (checkDraw brd = Some True \<longleftrightarrow>
            (\<forall>r\<in>{0, 1, 2}. \<forall>c\<in>{0, 1, 2}. pieceAt brd \<lparr>row = r, col = c\<rparr> \<noteq> None))"
proof -
  from assms(1) obtain a0 a1 a2 b0 b1 b2 c0 c1 c2 where
    b: "brd = [[a0, a1, a2], [b0, b1, b2], [c0, c1, c2]]" by (rule isGrid3x3E)
  have "allCellsFilled brd \<longleftrightarrow>
          (\<forall>r\<in>{0, 1, 2}. \<forall>c\<in>{0, 1, 2}. pieceAt brd \<lparr>row = r, col = c\<rparr> \<noteq> None)"
    unfolding b by (simp add: allCellsFilled_def pieceAt_def getCell_def)
  with checkDraw_grid[OF assms] show ?thesis by auto
qed

text \<open>A full board on which X has won: \<open>checkDraw\<close> is true all the same.\<close>

theorem checkDraw_iff_all_cells_filled_witness:
  "isGrid3x3 fullBoardWithWin \<and> naiveFullScan fullBoardWithWin
   \<and> checkDraw fullBoardWithWin = Some True
   \<and> isGrid3x3 lastCellBoard \<and> pieceAt lastCellBoard \<lparr>row = 2, col = 2\<rparr> = None
   \<and> checkDraw lastCellBoard = Some False"
proof -
  have g: "isGrid3x3 fullBoardWithWin" "isGrid3x3 lastCellBoard"
    by (simp_all add: isGrid3x3_def fullBoardWithWin_def lastCellBoard_def)
  have w: "naiveFullScan fullBoardWithWin"
    by (simp add: eval_defs fullBoardWithWin_def)
  have f: "\<forall>r\<in>{0, 1, 2}. \<forall>c\<in>{0, 1, 2}. pieceAt fullBoardWithWin \<lparr>row = r, col = c\<rparr> \<noteq> None"
    by (simp add: eval_defs fullBoardWithWin_def)
  have e: "pieceAt lastCellBoard \<lparr>row = 2, col = 2\<rparr> = None"
    by (simp add: eval_defs lastCellBoard_def)
  from checkDraw_iff_all_cells_filled[OF g(1)] f
  have d1: "checkDraw fullBoardWithWin = Some True" by blast
  from checkDraw_iff_all_cells_filled[OF g(2)] e
  have d2: "checkDraw lastCellBoard = Some False" by auto
  from g w d1 d2 e show ?thesis by simp
qed

subsection \<open>C6: the reasons of the move gate\<close>

text \<open>
  Claim C6, as stated, fails on \<open>validateMove\<close>. In the game X X X / O O _ / _ _ _,
  which X has won, the gate accepts the move at the empty cell \<open>(2,2)\<close>, answers
  \<open>cell-occupied\<close> at \<open>(1,1)\<close> and \<open>invalid-position\<close> at \<open>(5,0)\<close>: a finished
  game is not rejected as such, and a rejection carries the same reason as in a game
  that goes on.
\<close>

theorem validateMove_after_win_counterexample:
  "holdsLine (board wonGame) PlayerX
   \<and> validateMove wonGame \<lparr>row = 2, col = 2\<rparr> = Success
   \<and> validateMove wonGame \<lparr>row = 1, col = 1\<rparr> = Failure ''cell-occupied''
   \<and> validateMove wonGame \<lparr>row = 5, col = 0\<rparr> = Failure ''invalid-position''"
  by (simp add: engine_defs wonGame_def)

text \<open>
  Claim C6, amended. The move gate keeps no game status and never reports \<open>game-over\<close>.
  For every game state, finished or not, and every target position, \<open>validateMove\<close>
  answers \<open>move-in-progress\<close> exactly when the lock is set, otherwise
  \<open>invalid-position\<close> exactly when the position is outside the board's size, otherwise
  \<open>cell-occupied\<close> exactly when the first cell found at the position holds a symbol,
  and accepts the move otherwise. The three reasons differ from each other (no two of
  the cases overlap), so a caller can tell them apart, but not a finished game from a
  game that goes on.
\<close>

theorem validateMove_reasons:
  "validateMove state pos \<noteq> Failure ''game-over''
   \<and> (validateMove state pos = Failure ''move-in-progress'' \<longleftrightarrow> moveInProgress state)
   \<and> (validateMove state pos = Failure ''invalid-position'' \<longleftrightarrow>
        \<not> moveInProgress state
        \<and> \<not> (0 \<le> row pos \<and> row pos < boardSize (board state)
             \<and> 0 \<le> col pos \<and> col pos < boardSize (board state)))
   \<and> (validateMove state pos = Failure ''cell-occupied'' \<longleftrightarrow>
        \<not> moveInProgress state
        \<and> 0 \<le> row pos \<and> row pos < boardSize (board state)
        \<and> 0 \<le> col pos \<and> col pos < boardSize (board state)
        \<and> valueAt (board state) pos \<noteq> None)
   \<and> (validateMove state pos = Success \<longleftrightarrow>
        \<not> moveInProgress state
        \<and> 0 \<le> row pos \<and> row pos < boardSize (board state)
        \<and> 0 \<le> col pos \<and> col pos < boardSize (board state)
        \<and> valueAt (board state) pos = None)"
  by (auto simp: validateMove_def valueAt_def CELL_OCCUPIED_def MOVE_IN_PROGRESS_def
        INVALID_POSITION_def split: option.splits)

text \<open>The locked state: every move is answered with \<open>move-in-progress\<close>.\<close>

theorem validateMove_reasons_witness:
  "moveInProgress lockedState
   \<and> validateMove lockedState \<lparr>row = 0, col = 0\<rparr> = Failure ''move-in-progress''
   \<and> validateMove lockedState \<lparr>row = 0, col = 0\<rparr> \<noteq> Failure ''game-over''"
proof -
  have l: "moveInProgress lockedState" by (simp add: lockedState_def)
  from validateMove_reasons[of lockedState "\<lparr>row = 0, col = 0\<rparr>"] l
  show ?thesis by blast
qed

subsection \<open>C7: the relevant pattern indices\<close>

text \<open>
  Claim C7. For every cell position of the 3x3 grid, \<open>getRelevantPatternIndices\<close>
  returns indices within 0..7, without repetition, each of them the index of a pattern
  of the table that contains the position: exactly 3 for a corner cell, exactly the four
  indices 1, 4, 6, 7 for the centre cell, and exactly 2 for an edge cell.
\<close>

theorem getRelevantPatternIndices_counts:
  assumes "inGrid p"
  shows "set (getRelevantPatternIndices p) \<subseteq> {0..7}
       \<and> distinct (getRelevantPatternIndices p)
       \<and> (\<forall>i \<in> set (getRelevantPatternIndices p). \<exists>P. patternAt i = Some P \<and> p \<in> set P)
       \<and> (isCorner p \<longrightarrow> length (getRelevantPatternIndices p) = 3)
       \<and> (isCenter p \<longrightarrow> getRelevantPatternIndices p = [1, 4, 6, 7])
       \<and> (isEdge p \<longrightarrow> length (getRelevantPatternIndices p) = 2)"
proof -
  obtain r c where p: "p = \<lparr>row = r, col = c\<rparr>" by (cases p) simp
  from inGrid_cases[OF assms] p
  have rc: "(r = 0 \<or> r = 1 \<or> r = 2) \<and> (c = 0 \<or> c = 1 \<or> c = 2)" by simp
  then show ?thesis unfolding p
    by (elim conjE disjE;
        simp add: getRelevantPatternIndices_def patternAt_def WIN_PATTERNS_def
                  isCorner_def isCenter_def isEdge_def inGrid_def)
qed

theorem getRelevantPatternIndices_counts_witness:
  "inGrid \<lparr>row = 1, col = 1\<rparr> \<and> isCenter \<lparr>row = 1, col = 1\<rparr>
   \<and> getRelevantPatternIndices \<lparr>row = 1, col = 1\<rparr> = [1, 4, 6, 7]
   \<and> inGrid \<lparr>row = 0, col = 2\<rparr> \<and> isCorner \<lparr>row = 0, col = 2\<rparr>
   \<and> length (getRelevantPatternIndices \<lparr>row = 0, col = 2\<rparr>) = 3
   \<and> inGrid \<lparr>row = 1, col = 0\<rparr> \<and> isEdge \<lparr>row = 1, col = 0\<rparr>
   \<and> length (getRelevantPatternIndices \<lparr>row = 1, col = 0\<rparr>) = 2"
proof -
  have g: "inGrid \<lparr>row = 1, col = 1\<rparr>" "inGrid \<lparr>row = 0, col = 2\<rparr>"
          "inGrid \<lparr>row = 1, col = 0\<rparr>"
    by (simp_all add: inGrid_def)
  have k: "isCenter \<lparr>row = 1, col = 1\<rparr>" "isCorner \<lparr>row = 0, col = 2\<rparr>"
          "isEdge \<lparr>row = 1, col = 0\<rparr>"
    by (simp_all add: isCenter_def isCorner_def isEdge_def inGrid_def)
  from getRelevantPatternIndices_counts[OF g(1)] getRelevantPatternIndices_counts[OF g(2)]
       getRelevantPatternIndices_counts[OF g(3)] g k
  show ?thesis by blast
qed

subsection \<open>C8: a rejected move leaves the state as it is\<close>

text \<open>
  Claim C8. For every game state and every position for which \<open>validateMove\<close> fails,
  whatever the reason, \<open>processMove\<close> returns its input state: the board, the current
  turn and the lock are those of the input.
\<close>

theorem processMove_rejection_atomic:
  assumes "\<not> success (validateMove state pos)"
  shows "processMove state pos = state"
  using assms by (simp add: processMove_def)

text \<open>A locked state, and a position out of bounds on the initial state.\<close>

theorem processMove_rejection_atomic_witness:
  "\<not> success (validateMove lockedState \<lparr>row = 0, col = 0\<rparr>)
   \<and> processMove lockedState \<lparr>row = 0, col = 0\<rparr> = lockedState
   \<and> \<not> success (validateMove initialState \<lparr>row = 5, col = 5\<rparr>)
   \<and> processMove initialState \<lparr>row = 5, col = 5\<rparr> = initialState"
proof -
  have h: "\<not> success (validateMove lockedState \<lparr>row = 0, col = 0\<rparr>)"
          "\<not> success (validateMove initialState \<lparr>row = 5, col = 5\<rparr>)"
    by (simp_all add: validateMove_def lockedState_def initialState_def emptyBoard3_def)
  from processMove_rejection_atomic[OF h(1)] processMove_rejection_atomic[OF h(2)] h
  show ?thesis by simp
qed

subsection \<open>C9: the frame of updateBoardWithMove\<close>

text \<open>
  Claim C9. For every board, target position and symbol, the board that
  \<open>updateBoardWithMove\<close> returns has the same size field and as many cells; every
  cell keeps its position; a cell whose position is the target holds the given symbol; a
  cell at any other position is the cell of the input board.
\<close>

theorem updateBoardWithMove_frame:
  "boardSize (updateBoardWithMove b pos s) = boardSize b
   \<and> length (cells (updateBoardWithMove b pos s)) = length (cells b)
   \<and> (\<forall>i < length (cells b).
        position (cells (updateBoardWithMove b pos s) ! i) = position (cells b ! i)
        \<and> (if position (cells b ! i) = pos
           then cellValue (cells (updateBoardWithMove b pos s) ! i) = Some s
           else cells (updateBoardWithMove b pos s) ! i = cells b ! i))"
  by (auto simp: updateBoardWithMove_def CellPosition.equality)

text \<open>O at the centre of the empty board: cell 4 holds O, cell 0 is untouched.\<close>

theorem updateBoardWithMove_frame_witness:
  "boardSize (updateBoardWithMove emptyBoard3 \<lparr>row = 1, col = 1\<rparr> PlayerO) = 3
   \<and> length (cells (updateBoardWithMove emptyBoard3 \<lparr>row = 1, col = 1\<rparr> PlayerO)) = 9
   \<and> cells (updateBoardWithMove emptyBoard3 \<lparr>row = 1, col = 1\<rparr> PlayerO) ! 4
       = \<lparr>cellValue = Some PlayerO, position = \<lparr>row = 1, col = 1\<rparr>\<rparr>
   \<and> cells (updateBoardWithMove emptyBoard3 \<lparr>row = 1, col = 1\<rparr> PlayerO) ! 0
       = cells emptyBoard3 ! 0"
  using updateBoardWithMove_frame[of emptyBoard3 "\<lparr>row = 1, col = 1\<rparr>" PlayerO]
  by (simp add: updateBoardWithMove_def emptyBoard3_def)

subsection \<open>C10: validateMove never answers board-full\<close>

text \<open>
  Claim C10. For every game state and every position, the implemented \<open>validateMove\<close>
  never returns the reason \<open>board-full\<close>, although the table of reasons declares it:
  the result is a success or a failure with \<open>move-in-progress\<close>, \<open>invalid-position\<close>
  or \<open>cell-occupied\<close>.
\<close>

theorem validateMove_never_board_full:
  "validateMove state pos \<noteq> Failure ''board-full''
   \<and> BOARD_FULL = ''board-full''
   \<and> (validateMove state pos = Success
      \<or> validateMove state pos = Failure ''move-in-progress''
      \<or> validateMove state pos = Failure ''invalid-position''
      \<or> validateMove state pos = Failure ''cell-occupied'')"
  by (simp add: validateMove_def BOARD_FULL_def MOVE_IN_PROGRESS_def INVALID_POSITION_def
        CELL_OCCUPIED_def split: option.splits)

end
